theory Spec2Isabelle
  imports Main
begin

section \<open>The merge queue processor (package refinery, engineer.go)\<close>

text \<open>
  A shallow embedding of \<^verbatim>\<open>internal/refinery/engineer.go\<close>. The Engineer polls the
  issue tracker for ready merge requests, claims the first one, hands it to the pipeline
  and writes the outcome back. Everything the Go code does beyond computing a value is
  explicit here: the mutable Engineer is passed in and returned, calls into package beads
  and into the ticker are appended to a trace, and lines written to standard output are
  appended to a list.
\<close>

subsection \<open>Errors, durations and output\<close>

text \<open>
  A Go \<^verbatim>\<open>error\<close> is either a value returned by a collaborator (the operating system, the
  JSON decoder, the duration parser, the tracker), kept with its message, or the result of
  \<^verbatim>\<open>fmt.Errorf\<close>: the format string as written in the source, its string arguments, and
  the error wrapped by \<^verbatim>\<open>%w\<close> when there is one.
\<close>

datatype error =
    External string
  | Errorf string "string list" "error option"

text \<open>\<^verbatim>\<open>time.Duration\<close> counts nanoseconds; no arithmetic is done on it in this file.\<close>

type_synonym Duration = int

definition Second :: Duration where
  "Second = 1000000000"

text \<open>
  A line printed with \<^verbatim>\<open>fmt.Printf\<close> is its format string with its arguments, and one
  printed with \<^verbatim>\<open>fmt.Println\<close> is its text.
\<close>

datatype arg = Str string | Err error | Dur Duration

datatype line = Printf string "arg list" | Println string

text \<open>The two non-ASCII marks of the log lines, as their UTF-8 bytes.\<close>

definition check_mark :: string where
  "check_mark = [CHR 0xE2, CHR 0x9C, CHR 0x93]"

definition ballot_x :: string where
  "ballot_x = [CHR 0xE2, CHR 0x9C, CHR 0x97]"

subsection \<open>Configuration\<close>

record MergeQueueConfig =
  Enabled :: bool
  TargetBranch :: string
  IntegrationBranches :: bool
  OnConflict :: string
  RunTests :: bool
  TestCommand :: string
  DeleteMergedBranches :: bool
  RetryFlakyTests :: int
  PollInterval :: Duration
  MaxConcurrent :: int

definition DefaultMergeQueueConfig :: MergeQueueConfig where
  "DefaultMergeQueueConfig =
     \<lparr> Enabled = True,
       TargetBranch = ''main'',
       IntegrationBranches = True,
       OnConflict = ''assign_back'',
       RunTests = True,
       TestCommand = '''',
       DeleteMergedBranches = True,
       RetryFlakyTests = 1,
       PollInterval = 30 * Second,
       MaxConcurrent = 1 \<rparr>"

text \<open>
  The anonymous struct \<^verbatim>\<open>mqRaw\<close> of \<^verbatim>\<open>LoadConfig\<close>: every field is a pointer, nil when
  the key is absent from the section.
\<close>

record mqRaw =
  raw_Enabled :: "bool option"
  raw_TargetBranch :: "string option"
  raw_IntegrationBranches :: "bool option"
  raw_OnConflict :: "string option"
  raw_RunTests :: "bool option"
  raw_TestCommand :: "string option"
  raw_DeleteMergedBranches :: "bool option"
  raw_RetryFlakyTests :: "int option"
  raw_PollInterval :: "string option"
  raw_MaxConcurrent :: "int option"

text \<open>
  The standard library functions \<^verbatim>\<open>LoadConfig\<close> calls are parameters: reading a file,
  \<^verbatim>\<open>os.IsNotExist\<close>, \<^verbatim>\<open>filepath.Join\<close>, the two \<^verbatim>\<open>json.Unmarshal\<close> calls (the first
  yields the raw \<^verbatim>\<open>merge_queue\<close> message, nil when the document has none; the second
  decodes that message into \<^verbatim>\<open>mqRaw\<close>) and \<^verbatim>\<open>time.ParseDuration\<close>.
\<close>

record Env =
  ReadFile :: "string \<Rightarrow> error + string"
  IsNotExist :: "error \<Rightarrow> bool"
  Join :: "string \<Rightarrow> string \<Rightarrow> string"
  Unmarshal_rawConfig :: "string \<Rightarrow> error + string option"
  Unmarshal_mqRaw :: "string \<Rightarrow> error + mqRaw"
  ParseDuration :: "string \<Rightarrow> error + Duration"

subsection \<open>The tracker (package beads)\<close>

text \<open>
  Modelled from the spec: the types of package beads, which is not among the sources. An
  issue has an identifier, a title, a status, a priority, a kind and a description; an
  update carries the fields to change, of which the Engineer only ever sets the status;
  the description of a merge request carries branch, target and worker.
\<close>

record Issue =
  ID :: string
  Title :: string
  Description :: string
  Status :: string
  Priority :: int
  IssueType :: string

record UpdateOptions =
  opt_Status :: "string option"

record MRFields =
  Branch :: string
  Target :: string
  Worker :: string

text \<open>
  The operations of the tracker are parameters over a tracker state \<open>'w\<close>: the ready query,
  the partial update and the close with a reason. Each may fail, and each returns the
  tracker state it leaves behind. \<^verbatim>\<open>beads.ParseMRFields\<close> is a pure function of the issue.
\<close>

record 'w Beads =
  ReadyWithType :: "string \<Rightarrow> 'w \<Rightarrow> (error + Issue list) \<times> 'w"
  Update :: "string \<Rightarrow> UpdateOptions \<Rightarrow> 'w \<Rightarrow> error option \<times> 'w"
  CloseWithReason :: "string \<Rightarrow> string list \<Rightarrow> 'w \<Rightarrow> error option \<times> 'w"
  ParseMRFields :: "Issue \<Rightarrow> MRFields option"

text \<open>The calls the Engineer makes on its collaborators, in the order it makes them.\<close>

datatype call =
    ReadyWithTypeCall string
  | UpdateCall string UpdateOptions
  | CloseWithReasonCall string "string list"
  | ParseMRFieldsCall Issue
  | NewTickerCall Duration
  | TickerStopCall

subsection \<open>The Engineer\<close>

record Rig =
  Name :: string
  Path :: string

text \<open>
  \<^verbatim>\<open>stopCh\<close> is a \<^verbatim>\<open>chan struct{}\<close> on which nothing is ever sent: all that matters is
  whether it is nil, open or closed.
\<close>

datatype chan = NilChan | OpenChan | ClosedChan

text \<open>
  The struct fields come first. \<open>world\<close> is the state of the tracker behind \<open>beads\<close>,
  \<open>trace\<close> the calls made so far and \<open>out\<close> the lines printed so far.
\<close>

record 'w Engineer =
  rig :: Rig
  beads :: "'w Beads"
  config :: MergeQueueConfig
  workDir :: string
  stopCh :: chan
  world :: 'w
  trace :: "call list"
  out :: "line list"

text \<open>
  \<^verbatim>\<open>NewEngineer\<close>; the tracker handle \<^verbatim>\<open>beads.New(r.Path)\<close> and the state of the tracker
  are given.
\<close>

definition NewEngineer :: "'w Beads \<Rightarrow> 'w \<Rightarrow> Rig \<Rightarrow> 'w Engineer" where
  "NewEngineer b w r =
     \<lparr> rig = r,
       beads = b,
       config = DefaultMergeQueueConfig,
       workDir = Path r,
       stopCh = OpenChan,
       world = w,
       trace = [],
       out = [] \<rparr>"

definition Config :: "'w Engineer \<Rightarrow> MergeQueueConfig" where
  "Config e = config e"

text \<open>Writing a line to standard output.\<close>

definition print :: "line \<Rightarrow> 'w Engineer \<Rightarrow> 'w Engineer" where
  "print l e = e\<lparr>out := out e @ [l]\<rparr>"

text \<open>
  The calls on the tracker: each runs the operation of \<open>beads\<close> on the tracker state and
  records itself in the trace.
\<close>

definition beads_ReadyWithType ::
  "string \<Rightarrow> 'w Engineer \<Rightarrow> (error + Issue list) \<times> 'w Engineer" where
  "beads_ReadyWithType kind e =
     (case ReadyWithType (beads e) kind (world e) of
        (r, w) \<Rightarrow> (r, e\<lparr>world := w, trace := trace e @ [ReadyWithTypeCall kind]\<rparr>))"

definition beads_Update ::
  "string \<Rightarrow> UpdateOptions \<Rightarrow> 'w Engineer \<Rightarrow> error option \<times> 'w Engineer" where
  "beads_Update i opts e =
     (case Update (beads e) i opts (world e) of
        (r, w) \<Rightarrow> (r, e\<lparr>world := w, trace := trace e @ [UpdateCall i opts]\<rparr>))"

definition beads_CloseWithReason ::
  "string \<Rightarrow> string list \<Rightarrow> 'w Engineer \<Rightarrow> error option \<times> 'w Engineer" where
  "beads_CloseWithReason reason ids e =
     (case CloseWithReason (beads e) reason ids (world e) of
        (r, w) \<Rightarrow> (r, e\<lparr>world := w, trace := trace e @ [CloseWithReasonCall reason ids]\<rparr>))"

definition beads_ParseMRFields :: "Issue \<Rightarrow> 'w Engineer \<Rightarrow> MRFields option \<times> 'w Engineer" where
  "beads_ParseMRFields mr e =
     (ParseMRFields (beads e) mr, e\<lparr>trace := trace e @ [ParseMRFieldsCall mr]\<rparr>)"

subsection \<open>LoadConfig\<close>

text \<open>
  The ten assignments of \<^verbatim>\<open>LoadConfig\<close>, in the order of the source. The first nine cannot
  fail; \<^verbatim>\<open>poll_interval\<close> comes last and returns the error of the duration parser, with
  the nine others already written.
\<close>

definition applyRaw :: "Env \<Rightarrow> mqRaw \<Rightarrow> MergeQueueConfig \<Rightarrow> error option \<times> MergeQueueConfig" where
  "applyRaw env r c0 =
     (let c1 = (case raw_Enabled r of None \<Rightarrow> c0 | Some v \<Rightarrow> c0\<lparr>Enabled := v\<rparr>);
          c2 = (case raw_TargetBranch r of None \<Rightarrow> c1 | Some v \<Rightarrow> c1\<lparr>TargetBranch := v\<rparr>);
          c3 = (case raw_IntegrationBranches r of None \<Rightarrow> c2
                | Some v \<Rightarrow> c2\<lparr>IntegrationBranches := v\<rparr>);
          c4 = (case raw_OnConflict r of None \<Rightarrow> c3 | Some v \<Rightarrow> c3\<lparr>OnConflict := v\<rparr>);
          c5 = (case raw_RunTests r of None \<Rightarrow> c4 | Some v \<Rightarrow> c4\<lparr>RunTests := v\<rparr>);
          c6 = (case raw_TestCommand r of None \<Rightarrow> c5 | Some v \<Rightarrow> c5\<lparr>TestCommand := v\<rparr>);
          c7 = (case raw_DeleteMergedBranches r of None \<Rightarrow> c6
                | Some v \<Rightarrow> c6\<lparr>DeleteMergedBranches := v\<rparr>);
          c8 = (case raw_RetryFlakyTests r of None \<Rightarrow> c7 | Some v \<Rightarrow> c7\<lparr>RetryFlakyTests := v\<rparr>);
          c9 = (case raw_MaxConcurrent r of None \<Rightarrow> c8 | Some v \<Rightarrow> c8\<lparr>MaxConcurrent := v\<rparr>)
      in case raw_PollInterval r of
           None \<Rightarrow> (None, c9)
         | Some s \<Rightarrow>
             (case ParseDuration env s of
                Inl err \<Rightarrow> (Some (Errorf ''invalid poll_interval %q: %w'' [s] (Some err)), c9)
              | Inr dur \<Rightarrow> (None, c9\<lparr>PollInterval := dur\<rparr>)))"

definition LoadConfig :: "Env \<Rightarrow> 'w Engineer \<Rightarrow> error option \<times> 'w Engineer" where
  "LoadConfig env e =
     (let configPath = Join env (Path (rig e)) ''config.json'' in
      case ReadFile env configPath of
        Inl err \<Rightarrow>
          if IsNotExist env err then (None, e)
          else (Some (Errorf ''reading config: %w'' [] (Some err)), e)
      | Inr data \<Rightarrow>
          (case Unmarshal_rawConfig env data of
             Inl err \<Rightarrow> (Some (Errorf ''parsing config: %w'' [] (Some err)), e)
           | Inr None \<Rightarrow> (None, e)
           | Inr (Some mq) \<Rightarrow>
               (case Unmarshal_mqRaw env mq of
                  Inl err \<Rightarrow> (Some (Errorf ''parsing merge_queue config: %w'' [] (Some err)), e)
                | Inr r \<Rightarrow>
                    (case applyRaw env r (config e) of
                       (res, c) \<Rightarrow> (res, e\<lparr>config := c\<rparr>)))))"

subsection \<open>One cycle\<close>

record ProcessResult =
  Success :: bool
  MergeCommit :: string
  Error :: string
  Conflict :: bool
  TestsFailed :: bool

text \<open>
  \<^verbatim>\<open>ProcessMR\<close>, the placeholder of the source: it parses the description, prints what it
  would do and reports a failure either way. Fields a Go composite literal leaves out are
  zero.
\<close>

definition ProcessMR :: "Issue \<Rightarrow> 'w Engineer \<Rightarrow> ProcessResult \<times> 'w Engineer" where
  "ProcessMR mr e =
     (case beads_ParseMRFields mr e of
        (None, e1) \<Rightarrow>
          (\<lparr> Success = False, MergeCommit = '''',
             Error = ''no MR fields found in description'',
             Conflict = False, TestsFailed = False \<rparr>, e1)
      | (Some mrFields, e1) \<Rightarrow>
          (let e2 = print (Printf ''[Engineer] Would process:\<newline>'' []) e1;
               e3 = print (Printf ''  Branch: %s\<newline>'' [Str (Branch mrFields)]) e2;
               e4 = print (Printf ''  Target: %s\<newline>'' [Str (Target mrFields)]) e3;
               e5 = print (Printf ''  Worker: %s\<newline>'' [Str (Worker mrFields)]) e4
           in (\<lparr> Success = False, MergeCommit = '''',
                  Error = ''ProcessMR not fully implemented (see gt-3x1.2)'',
                  Conflict = False, TestsFailed = False \<rparr>, e5)))"

definition handleFailure :: "Issue \<Rightarrow> ProcessResult \<Rightarrow> 'w Engineer \<Rightarrow> 'w Engineer" where
  "handleFailure mr result e =
     (let opn = ''open'' in
      case beads_Update (ID mr) \<lparr>opt_Status = Some opn\<rparr> e of
        (r, e1) \<Rightarrow>
          (let e2 = (case r of
                       Some err \<Rightarrow>
                         print (Printf ''[Engineer] Warning: failed to reopen MR %s: %v\<newline>''
                                  [Str (ID mr), Err err]) e1
                     | None \<Rightarrow> e1)
           in print (Printf (''[Engineer] '' @ ballot_x @ '' Failed: %s - %s\<newline>'')
                       [Str (ID mr), Str (Error result)]) e2))"

text \<open>
  \<^verbatim>\<open>processOnce\<close> with the pipeline it delegates to as a parameter; \<open>done\<close> says whether
  the context is already cancelled when the cycle samples it.
\<close>

definition processOnce_with ::
  "(Issue \<Rightarrow> 'w Engineer \<Rightarrow> ProcessResult \<times> 'w Engineer) \<Rightarrow> bool \<Rightarrow> 'w Engineer
     \<Rightarrow> error option \<times> 'w Engineer" where
  "processOnce_with pipeline done e =
     (if done then (None, e)
      else case beads_ReadyWithType ''merge-request'' e of
        (Inl err, e1) \<Rightarrow> (Some (Errorf ''querying ready merge-requests: %w'' [] (Some err)), e1)
      | (Inr readyMRs, e1) \<Rightarrow>
          if length readyMRs = 0 then (None, e1)
          else
            (let mr = readyMRs ! 0;
                 e2 = print (Printf ''[Engineer] Processing: %s (%s)\<newline>''
                               [Str (ID mr), Str (Title mr)]) e1;
                 inProgress = ''in_progress''
             in case beads_Update (ID mr) \<lparr>opt_Status = Some inProgress\<rparr> e2 of
                  (Some err, e3) \<Rightarrow> (Some (Errorf ''claiming MR %s: %w'' [ID mr] (Some err)), e3)
                | (None, e3) \<Rightarrow>
                    (case pipeline mr e3 of
                       (result, e4) \<Rightarrow>
                         if Success result then
                           (let reason = ''merged: '' @ MergeCommit result in
                            case beads_CloseWithReason reason [ID mr] e4 of
                              (r, e5) \<Rightarrow>
                                (let e6 = (case r of
                                             Some err \<Rightarrow>
                                               print (Printf
                                                 ''[Engineer] Warning: failed to close MR %s: %v\<newline>''
                                                 [Str (ID mr), Err err]) e5
                                           | None \<Rightarrow> e5)
                                 in (None,
                                     print (Printf (''[Engineer] '' @ check_mark @ '' Merged: %s\<newline>'')
                                              [Str (ID mr)]) e6)))
                         else (None, handleFailure mr result e4))))"

definition processOnce :: "bool \<Rightarrow> 'w Engineer \<Rightarrow> error option \<times> 'w Engineer" where
  "processOnce = processOnce_with ProcessMR"

subsection \<open>Run and Stop\<close>

text \<open>
  What the \<^verbatim>\<open>select\<close> of the main loop receives, one entry per iteration: the context is
  done, the stop channel is closed, or the ticker fires (with whether the context is
  already cancelled when the cycle samples it). A receive on a channel that is not closed
  never completes, so a stop entry is passed over unless \<^verbatim>\<open>stopCh\<close> is closed.
\<close>

datatype fired = CtxDone | StopSignal | Tick bool

text \<open>
  \<^verbatim>\<open>Run\<close> returns an error or nil, panics, or is still waiting in its \<^verbatim>\<open>select\<close> when
  the entries run out.
\<close>

datatype returned = Return "error option" | Panic string | Waiting

fun loop :: "fired list \<Rightarrow> 'w Engineer \<Rightarrow> returned \<times> 'w Engineer" where
  "loop [] e = (Waiting, e)"
| "loop (CtxDone # fs) e =
     (Return None, print (Println ''[Engineer] Shutting down (context cancelled)'') e)"
| "loop (StopSignal # fs) e =
     (if stopCh e = ClosedChan
      then (Return None, print (Println ''[Engineer] Shutting down (stop signal)'') e)
      else loop fs e)"
| "loop (Tick done # fs) e =
     (case processOnce done e of
        (r, e1) \<Rightarrow>
          loop fs (case r of
                     Some err \<Rightarrow> print (Printf ''[Engineer] Error: %v\<newline>'' [Err err]) e1
                   | None \<Rightarrow> e1))"

text \<open>
  \<^verbatim>\<open>time.NewTicker\<close> panics on an interval that is not positive; the deferred
  \<^verbatim>\<open>ticker.Stop()\<close> runs when \<^verbatim>\<open>Run\<close> returns.
\<close>

definition Run :: "Env \<Rightarrow> bool \<Rightarrow> fired list \<Rightarrow> 'w Engineer \<Rightarrow> returned \<times> 'w Engineer" where
  "Run env done sched e =
     (case LoadConfig env e of
        (Some err, e1) \<Rightarrow> (Return (Some (Errorf ''loading config: %w'' [] (Some err))), e1)
      | (None, e1) \<Rightarrow>
          if \<not> Enabled (config e1)
          then (Return (Some (Errorf ''merge queue is disabled in configuration'' [] None)), e1)
          else
            (let e2 = print (Printf ''[Engineer] Starting for rig %s (poll_interval=%s)\<newline>''
                               [Str (Name (rig e1)), Dur (PollInterval (config e1))]) e1;
                 e3 = e2\<lparr>trace := trace e2 @ [NewTickerCall (PollInterval (config e2))]\<rparr>
             in if PollInterval (config e2) \<le> 0
                then (Panic ''non-positive interval for NewTicker'', e3)
                else
                  (case processOnce done e3 of
                     (r, e4) \<Rightarrow>
                       (let e5 = (case r of
                                    Some err \<Rightarrow>
                                      print (Printf ''[Engineer] Error: %v\<newline>'' [Err err]) e4
                                  | None \<Rightarrow> e4)
                        in case loop sched e5 of
                             (Return res, e6) \<Rightarrow>
                               (Return res, e6\<lparr>trace := trace e6 @ [TickerStopCall]\<rparr>)
                           | (res, e6) \<Rightarrow> (res, e6)))))"

text \<open>
  \<^verbatim>\<open>close\<close> on a channel: closing a nil or an already closed channel is a run-time panic.
\<close>

definition close_chan :: "chan \<Rightarrow> string + chan" where
  "close_chan c =
     (case c of
        NilChan \<Rightarrow> Inl ''close of nil channel''
      | ClosedChan \<Rightarrow> Inl ''close of closed channel''
      | OpenChan \<Rightarrow> Inr ClosedChan)"

definition Stop :: "'w Engineer \<Rightarrow> string + 'w Engineer" where
  "Stop e = (case close_chan (stopCh e) of Inl p \<Rightarrow> Inl p | Inr c \<Rightarrow> Inr (e\<lparr>stopCh := c\<rparr>))"

subsection \<open>A tracker that keeps its issues in a list\<close>

text \<open>
  Modelled from the spec: a tracker, for package beads which is not among the sources. It
  keeps the issues in selector order. The ready query returns the open issues of the
  kind asked for; an update that succeeds sets the status of the issue it names and one
  that fails changes nothing (the update is atomic); a close that succeeds sets the status
  to closed. Whether a call fails is scripted: \<open>replies\<close> holds the outcome of the next
  calls, and a call succeeds once the script is used up.
\<close>

record Store =
  issues :: "Issue list"
  replies :: "error option list"

definition next_reply :: "Store \<Rightarrow> error option \<times> Store" where
  "next_reply w = (case replies w of [] \<Rightarrow> (None, w) | r # rs \<Rightarrow> (r, w\<lparr>replies := rs\<rparr>))"

definition store_ReadyWithType :: "string \<Rightarrow> Store \<Rightarrow> (error + Issue list) \<times> Store" where
  "store_ReadyWithType kind w =
     (case next_reply w of
        (Some err, w1) \<Rightarrow> (Inl err, w1)
      | (None, w1) \<Rightarrow>
          (Inr (filter (\<lambda>x. Status x = ''open'' \<and> IssueType x = kind) (issues w1)), w1))"

definition store_Update :: "string \<Rightarrow> UpdateOptions \<Rightarrow> Store \<Rightarrow> error option \<times> Store" where
  "store_Update i opts w =
     (case next_reply w of
        (Some err, w1) \<Rightarrow> (Some err, w1)
      | (None, w1) \<Rightarrow>
          (None, w1\<lparr>issues :=
             map (\<lambda>x. if ID x = i
                      then (case opt_Status opts of None \<Rightarrow> x | Some s \<Rightarrow> x\<lparr>Status := s\<rparr>)
                      else x) (issues w1)\<rparr>))"

definition store_CloseWithReason :: "string \<Rightarrow> string list \<Rightarrow> Store \<Rightarrow> error option \<times> Store" where
  "store_CloseWithReason reason ids w =
     (case next_reply w of
        (Some err, w1) \<Rightarrow> (Some err, w1)
      | (None, w1) \<Rightarrow>
          (None, w1\<lparr>issues :=
             map (\<lambda>x. if ID x \<in> set ids then x\<lparr>Status := ''closed''\<rparr> else x) (issues w1)\<rparr>))"

definition store_Beads :: "(Issue \<Rightarrow> MRFields option) \<Rightarrow> Store Beads" where
  "store_Beads parse =
     \<lparr> ReadyWithType = store_ReadyWithType,
       Update = store_Update,
       CloseWithReason = store_CloseWithReason,
       ParseMRFields = parse \<rparr>"

definition status_of :: "Store \<Rightarrow> string \<Rightarrow> string option" where
  "status_of w i = map_option Status (find (\<lambda>x. ID x = i) (issues w))"

subsection \<open>Example inputs\<close>

text \<open>
  A rig, two ready merge requests, a parser of descriptions, an Engineer on the list
  tracker with a script of replies, and an environment whose
  \<^verbatim>\<open>config.json\<close> is given by the outcome of reading it and by the decoded section;
  then the result of a pipeline that met a conflict and the pipeline that returns it, an
  Engineer configured for \<^verbatim>\<open>auto_rebase\<close>, and one whose claimed item the tracker
  will refuse to update.
\<close>

definition ex_rig :: Rig where
  "ex_rig = \<lparr> Name = ''gastown'', Path = ''/rigs/gastown'' \<rparr>"

definition ex_mr :: "string \<Rightarrow> string \<Rightarrow> Issue" where
  "ex_mr i st =
     \<lparr> ID = i, Title = ''Merge work'', Description = ''branch: polecat/nux'',
       Status = st, Priority = 1, IssueType = ''merge-request'' \<rparr>"

definition ex_queue :: "Issue list" where
  "ex_queue = [ex_mr ''gt-1'' ''open'', ex_mr ''gt-2'' ''open'']"

definition ex_parse :: "Issue \<Rightarrow> MRFields option" where
  "ex_parse mr =
     (if Description mr = [] then None
      else Some \<lparr> Branch = ''polecat/nux'', Target = ''main'', Worker = ''nux'' \<rparr>)"

definition ex_engineer :: "Issue list \<Rightarrow> error option list \<Rightarrow> Store Engineer" where
  "ex_engineer xs rs = NewEngineer (store_Beads ex_parse) \<lparr> issues = xs, replies = rs \<rparr> ex_rig"

definition ex_raw :: "string option \<Rightarrow> string option \<Rightarrow> mqRaw" where
  "ex_raw target interval =
     \<lparr> raw_Enabled = None, raw_TargetBranch = target, raw_IntegrationBranches = None,
       raw_OnConflict = None, raw_RunTests = None, raw_TestCommand = None,
       raw_DeleteMergedBranches = None, raw_RetryFlakyTests = None,
       raw_PollInterval = interval, raw_MaxConcurrent = None \<rparr>"

definition ex_env :: "(error + string) \<Rightarrow> mqRaw \<Rightarrow> Env" where
  "ex_env file raw =
     \<lparr> ReadFile = (\<lambda>p. if p = ''/rigs/gastown/config.json'' then file
                       else Inl (External ''no such file or directory'')),
       IsNotExist = (\<lambda>err. err = External ''no such file or directory''),
       Join = (\<lambda>d f. d @ ''/'' @ f),
       Unmarshal_rawConfig = (\<lambda>data. if data = ''{}'' then Inr None else Inr (Some data)),
       Unmarshal_mqRaw = (\<lambda>mq. Inr raw),
       ParseDuration = (\<lambda>s. if s = ''30s'' then Inr (30 * Second)
                            else Inl (External ''time: invalid duration'')) \<rparr>"

definition ex_conflict :: ProcessResult where
  "ex_conflict =
     \<lparr> Success = False, MergeCommit = [], Error = ''merge conflict in go.mod'',
       Conflict = True, TestsFailed = False \<rparr>"


definition ex_stuck :: "Store Engineer" where
  "ex_stuck = ex_engineer [ex_mr ''gt-1'' ''in_progress''] [Some (External ''bd update failed'')]"

definition ex_conflicted :: "Issue \<Rightarrow> Store Engineer \<Rightarrow> ProcessResult \<times> Store Engineer" where
  "ex_conflicted mr e = (ex_conflict, e)"

section \<open>Properties\<close>

lemmas ex_defs = ex_rig_def ex_mr_def ex_queue_def ex_parse_def ex_engineer_def
  NewEngineer_def store_Beads_def store_ReadyWithType_def store_Update_def
  store_CloseWithReason_def next_reply_def status_of_def

lemmas step_defs = beads_ReadyWithType_def beads_Update_def beads_CloseWithReason_def
  beads_ParseMRFields_def print_def

subsection \<open>The empty queue\<close>

text \<open>
  C7: a cycle whose ready query returns the empty list returns no error and leaves the
  Engineer as it was but for the query itself: the trace gains the ready query and nothing
  else (no update, no close), the tracker is in the state the query left it in, and
  nothing is printed.
\<close>

theorem processOnce_empty_queue:
  assumes "ReadyWithType (beads e) ''merge-request'' (world e) = (Inr [], w)"
  shows "processOnce False e =
           (None, e\<lparr>world := w, trace := trace e @ [ReadyWithTypeCall ''merge-request'']\<rparr>)"
  using assms by (simp add: processOnce_def processOnce_with_def beads_ReadyWithType_def)

theorem processOnce_empty_queue_witness:
  "processOnce False (ex_engineer [ex_mr ''gt-1'' ''closed''] []) =
     (None, (ex_engineer [ex_mr ''gt-1'' ''closed''] [])
              \<lparr>trace := [ReadyWithTypeCall ''merge-request'']\<rparr>)"
proof -
  let ?e = "ex_engineer [ex_mr ''gt-1'' ''closed''] []"
  have ready: "ReadyWithType (beads ?e) ''merge-request'' (world ?e) = (Inr [], world ?e)"
    by (simp add: ex_defs)
  from processOnce_empty_queue [OF ready] show ?thesis
    by (simp add: ex_defs)
qed

subsection \<open>Claiming\<close>

text \<open>
  C1: in a cycle whose ready query returns a non-empty list, the first call after the
  query is the update of the first item of that list to \<^verbatim>\<open>in_progress\<close>. If that update
  fails, the cycle returns the claiming error and its trace ends there: the parser, first
  stage of the pipeline, is not called and no other update or close is made. If it
  succeeds, the pipeline starts after it, and the only other update of the cycle is
  the one that reopens the same item: one item is claimed, the first.
\<close>

theorem processOnce_claims_first:
  assumes ready: "ReadyWithType (beads e) ''merge-request'' (world e) = (Inr readyMRs, w1)"
    and nonempty: "readyMRs \<noteq> []"
    and claim: "Update (beads e) (ID (readyMRs ! 0)) \<lparr>opt_Status = Some ''in_progress''\<rparr> w1
                  = (r, w2)"
  shows "(case r of
            Some err \<Rightarrow>
              processOnce False e =
                (Some (Errorf ''claiming MR %s: %w'' [ID (readyMRs ! 0)] (Some err)),
                 e\<lparr>world := w2,
                   trace := trace e @ [ReadyWithTypeCall ''merge-request'',
                     UpdateCall (ID (readyMRs ! 0)) \<lparr>opt_Status = Some ''in_progress''\<rparr>],
                   out := out e @ [Printf ''[Engineer] Processing: %s (%s)\<newline>''
                     [Str (ID (readyMRs ! 0)), Str (Title (readyMRs ! 0))]]\<rparr>)
          | None \<Rightarrow>
              fst (processOnce False e) = None \<and>
              trace (snd (processOnce False e)) =
                trace e @ [ReadyWithTypeCall ''merge-request'',
                  UpdateCall (ID (readyMRs ! 0)) \<lparr>opt_Status = Some ''in_progress''\<rparr>,
                  ParseMRFieldsCall (readyMRs ! 0),
                  UpdateCall (ID (readyMRs ! 0)) \<lparr>opt_Status = Some ''open''\<rparr>])"
proof (cases r)
  case (Some err)
  with assms show ?thesis
    by (simp add: processOnce_def processOnce_with_def step_defs Let_def)
next
  case None
  with assms show ?thesis
    by (auto simp add: processOnce_def processOnce_with_def step_defs Let_def handleFailure_def
        ProcessMR_def split: option.split prod.split)
qed

theorem processOnce_claims_first_witness:
  "processOnce False (ex_engineer ex_queue [None, Some (External ''bd update failed'')]) =
     (Some (Errorf ''claiming MR %s: %w'' [''gt-1''] (Some (External ''bd update failed''))),
      (ex_engineer ex_queue [])
        \<lparr>trace := [ReadyWithTypeCall ''merge-request'',
                   UpdateCall ''gt-1'' \<lparr>opt_Status = Some ''in_progress''\<rparr>],
          out := [Printf ''[Engineer] Processing: %s (%s)\<newline>''
                    [Str ''gt-1'', Str ''Merge work'']]\<rparr>)
   \<and> trace (snd (processOnce False (ex_engineer ex_queue []))) =
       [ReadyWithTypeCall ''merge-request'',
        UpdateCall ''gt-1'' \<lparr>opt_Status = Some ''in_progress''\<rparr>,
        ParseMRFieldsCall (ex_mr ''gt-1'' ''open''),
        UpdateCall ''gt-1'' \<lparr>opt_Status = Some ''open''\<rparr>]"
proof -
  let ?failing = "ex_engineer ex_queue [None, Some (External ''bd update failed'')]"
  let ?w1 = "\<lparr> issues = ex_queue, replies = [Some (External ''bd update failed'')] \<rparr>"
  have ready1:
    "ReadyWithType (beads ?failing) ''merge-request'' (world ?failing) = (Inr ex_queue, ?w1)"
    by (simp add: ex_defs)
  have ne: "ex_queue \<noteq> []"
    by (simp add: ex_queue_def)
  have claim1:
    "Update (beads ?failing) (ID (ex_queue ! 0)) \<lparr>opt_Status = Some ''in_progress''\<rparr> ?w1
       = (Some (External ''bd update failed''), \<lparr> issues = ex_queue, replies = [] \<rparr>)"
    by (simp add: ex_defs)
  let ?ok = "ex_engineer ex_queue []"
  have ready2: "ReadyWithType (beads ?ok) ''merge-request'' (world ?ok) = (Inr ex_queue, world ?ok)"
    by (simp add: ex_defs)
  have claim2:
    "Update (beads ?ok) (ID (ex_queue ! 0)) \<lparr>opt_Status = Some ''in_progress''\<rparr> (world ?ok)
       = (None, \<lparr> issues = [ex_mr ''gt-1'' ''in_progress'', ex_mr ''gt-2'' ''open''],
                  replies = [] \<rparr>)"
    by (simp add: ex_defs)
  from processOnce_claims_first [OF ready1 ne claim1]
    processOnce_claims_first [OF ready2 ne claim2]
  show ?thesis
    by (simp add: ex_defs)
qed

subsection \<open>Configuration\<close>

text \<open>
  The nine assignments that cannot fail, then \<^verbatim>\<open>poll_interval\<close>: the configuration that
  \<^verbatim>\<open>applyRaw\<close> leaves behind, field by field. A key of the section that is set replaces the
  field; a key that is not set leaves it. A \<^verbatim>\<open>poll_interval\<close> that does not parse leaves
  the interval as it was.
\<close>

lemma applyRaw_config:
  "snd (applyRaw env r c) =
     \<lparr> Enabled = (case raw_Enabled r of None \<Rightarrow> Enabled c | Some v \<Rightarrow> v),
       TargetBranch = (case raw_TargetBranch r of None \<Rightarrow> TargetBranch c | Some v \<Rightarrow> v),
       IntegrationBranches =
         (case raw_IntegrationBranches r of None \<Rightarrow> IntegrationBranches c | Some v \<Rightarrow> v),
       OnConflict = (case raw_OnConflict r of None \<Rightarrow> OnConflict c | Some v \<Rightarrow> v),
       RunTests = (case raw_RunTests r of None \<Rightarrow> RunTests c | Some v \<Rightarrow> v),
       TestCommand = (case raw_TestCommand r of None \<Rightarrow> TestCommand c | Some v \<Rightarrow> v),
       DeleteMergedBranches =
         (case raw_DeleteMergedBranches r of None \<Rightarrow> DeleteMergedBranches c | Some v \<Rightarrow> v),
       RetryFlakyTests = (case raw_RetryFlakyTests r of None \<Rightarrow> RetryFlakyTests c | Some v \<Rightarrow> v),
       PollInterval =
         (case raw_PollInterval r of
            None \<Rightarrow> PollInterval c
          | Some s \<Rightarrow> (case ParseDuration env s of Inl err \<Rightarrow> PollInterval c | Inr d \<Rightarrow> d)),
       MaxConcurrent = (case raw_MaxConcurrent r of None \<Rightarrow> MaxConcurrent c | Some v \<Rightarrow> v) \<rparr>"
  and applyRaw_result:
  "fst (applyRaw env r c) =
     (case raw_PollInterval r of
        None \<Rightarrow> None
      | Some s \<Rightarrow>
          (case ParseDuration env s of
             Inl err \<Rightarrow> Some (Errorf ''invalid poll_interval %q: %w'' [s] (Some err))
           | Inr d \<Rightarrow> None))"
proof -
  define c1 where "c1 = (case raw_Enabled r of None \<Rightarrow> c | Some v \<Rightarrow> c\<lparr>Enabled := v\<rparr>)"
  define c2 where "c2 = (case raw_TargetBranch r of None \<Rightarrow> c1 | Some v \<Rightarrow> c1\<lparr>TargetBranch := v\<rparr>)"
  define c3 where "c3 = (case raw_IntegrationBranches r of None \<Rightarrow> c2
                         | Some v \<Rightarrow> c2\<lparr>IntegrationBranches := v\<rparr>)"
  define c4 where "c4 = (case raw_OnConflict r of None \<Rightarrow> c3 | Some v \<Rightarrow> c3\<lparr>OnConflict := v\<rparr>)"
  define c5 where "c5 = (case raw_RunTests r of None \<Rightarrow> c4 | Some v \<Rightarrow> c4\<lparr>RunTests := v\<rparr>)"
  define c6 where "c6 = (case raw_TestCommand r of None \<Rightarrow> c5 | Some v \<Rightarrow> c5\<lparr>TestCommand := v\<rparr>)"
  define c7 where "c7 = (case raw_DeleteMergedBranches r of None \<Rightarrow> c6
                         | Some v \<Rightarrow> c6\<lparr>DeleteMergedBranches := v\<rparr>)"
  define c8 where "c8 = (case raw_RetryFlakyTests r of None \<Rightarrow> c7
                         | Some v \<Rightarrow> c7\<lparr>RetryFlakyTests := v\<rparr>)"
  define c9 where "c9 = (case raw_MaxConcurrent r of None \<Rightarrow> c8 | Some v \<Rightarrow> c8\<lparr>MaxConcurrent := v\<rparr>)"
  have unfold: "applyRaw env r c =
      (case raw_PollInterval r of
         None \<Rightarrow> (None, c9)
       | Some s \<Rightarrow>
           (case ParseDuration env s of
              Inl err \<Rightarrow> (Some (Errorf ''invalid poll_interval %q: %w'' [s] (Some err)), c9)
            | Inr dur \<Rightarrow> (None, c9\<lparr>PollInterval := dur\<rparr>)))"
    unfolding applyRaw_def Let_def c9_def c8_def c7_def c6_def c5_def c4_def c3_def c2_def c1_def
    by (rule refl)
  have e1: "c1 = c\<lparr>Enabled := (case raw_Enabled r of None \<Rightarrow> Enabled c | Some v \<Rightarrow> v)\<rparr>"
    by (cases "raw_Enabled r") (simp_all add: c1_def)
  have e2: "c2 = c1\<lparr>TargetBranch :=
      (case raw_TargetBranch r of None \<Rightarrow> TargetBranch c | Some v \<Rightarrow> v)\<rparr>"
    by (cases "raw_TargetBranch r") (simp_all add: c2_def e1)
  have e3: "c3 = c2\<lparr>IntegrationBranches :=
      (case raw_IntegrationBranches r of None \<Rightarrow> IntegrationBranches c | Some v \<Rightarrow> v)\<rparr>"
    by (cases "raw_IntegrationBranches r") (simp_all add: c3_def e2 e1)
  have e4: "c4 = c3\<lparr>OnConflict :=
      (case raw_OnConflict r of None \<Rightarrow> OnConflict c | Some v \<Rightarrow> v)\<rparr>"
    by (cases "raw_OnConflict r") (simp_all add: c4_def e3 e2 e1)
  have e5: "c5 = c4\<lparr>RunTests := (case raw_RunTests r of None \<Rightarrow> RunTests c | Some v \<Rightarrow> v)\<rparr>"
    by (cases "raw_RunTests r") (simp_all add: c5_def e4 e3 e2 e1)
  have e6: "c6 = c5\<lparr>TestCommand :=
      (case raw_TestCommand r of None \<Rightarrow> TestCommand c | Some v \<Rightarrow> v)\<rparr>"
    by (cases "raw_TestCommand r") (simp_all add: c6_def e5 e4 e3 e2 e1)
  have e7: "c7 = c6\<lparr>DeleteMergedBranches :=
      (case raw_DeleteMergedBranches r of None \<Rightarrow> DeleteMergedBranches c | Some v \<Rightarrow> v)\<rparr>"
    by (cases "raw_DeleteMergedBranches r") (simp_all add: c7_def e6 e5 e4 e3 e2 e1)
  have e8: "c8 = c7\<lparr>RetryFlakyTests :=
      (case raw_RetryFlakyTests r of None \<Rightarrow> RetryFlakyTests c | Some v \<Rightarrow> v)\<rparr>"
    by (cases "raw_RetryFlakyTests r") (simp_all add: c8_def e7 e6 e5 e4 e3 e2 e1)
  have e9: "c9 = c8\<lparr>MaxConcurrent :=
      (case raw_MaxConcurrent r of None \<Rightarrow> MaxConcurrent c | Some v \<Rightarrow> v)\<rparr>"
    by (cases "raw_MaxConcurrent r") (simp_all add: c9_def e8 e7 e6 e5 e4 e3 e2 e1)
  have c9: "c9 =
      c\<lparr>Enabled := (case raw_Enabled r of None \<Rightarrow> Enabled c | Some v \<Rightarrow> v),
        TargetBranch := (case raw_TargetBranch r of None \<Rightarrow> TargetBranch c | Some v \<Rightarrow> v),
        IntegrationBranches :=
          (case raw_IntegrationBranches r of None \<Rightarrow> IntegrationBranches c | Some v \<Rightarrow> v),
        OnConflict := (case raw_OnConflict r of None \<Rightarrow> OnConflict c | Some v \<Rightarrow> v),
        RunTests := (case raw_RunTests r of None \<Rightarrow> RunTests c | Some v \<Rightarrow> v),
        TestCommand := (case raw_TestCommand r of None \<Rightarrow> TestCommand c | Some v \<Rightarrow> v),
        DeleteMergedBranches :=
          (case raw_DeleteMergedBranches r of None \<Rightarrow> DeleteMergedBranches c | Some v \<Rightarrow> v),
        RetryFlakyTests :=
          (case raw_RetryFlakyTests r of None \<Rightarrow> RetryFlakyTests c | Some v \<Rightarrow> v),
        MaxConcurrent := (case raw_MaxConcurrent r of None \<Rightarrow> MaxConcurrent c | Some v \<Rightarrow> v)\<rparr>"
    by (simp add: e9 e8 e7 e6 e5 e4 e3 e2 e1)
  show "snd (applyRaw env r c) =
     \<lparr> Enabled = (case raw_Enabled r of None \<Rightarrow> Enabled c | Some v \<Rightarrow> v),
       TargetBranch = (case raw_TargetBranch r of None \<Rightarrow> TargetBranch c | Some v \<Rightarrow> v),
       IntegrationBranches =
         (case raw_IntegrationBranches r of None \<Rightarrow> IntegrationBranches c | Some v \<Rightarrow> v),
       OnConflict = (case raw_OnConflict r of None \<Rightarrow> OnConflict c | Some v \<Rightarrow> v),
       RunTests = (case raw_RunTests r of None \<Rightarrow> RunTests c | Some v \<Rightarrow> v),
       TestCommand = (case raw_TestCommand r of None \<Rightarrow> TestCommand c | Some v \<Rightarrow> v),
       DeleteMergedBranches =
         (case raw_DeleteMergedBranches r of None \<Rightarrow> DeleteMergedBranches c | Some v \<Rightarrow> v),
       RetryFlakyTests = (case raw_RetryFlakyTests r of None \<Rightarrow> RetryFlakyTests c | Some v \<Rightarrow> v),
       PollInterval =
         (case raw_PollInterval r of
            None \<Rightarrow> PollInterval c
          | Some s \<Rightarrow> (case ParseDuration env s of Inl err \<Rightarrow> PollInterval c | Inr d \<Rightarrow> d)),
       MaxConcurrent = (case raw_MaxConcurrent r of None \<Rightarrow> MaxConcurrent c | Some v \<Rightarrow> v) \<rparr>"
    unfolding unfold c9
    by (cases "raw_PollInterval r") (simp_all split: sum.split)
  show "fst (applyRaw env r c) =
     (case raw_PollInterval r of
        None \<Rightarrow> None
      | Some s \<Rightarrow>
          (case ParseDuration env s of
             Inl err \<Rightarrow> Some (Errorf ''invalid poll_interval %q: %w'' [s] (Some err))
           | Inr d \<Rightarrow> None))"
    unfolding unfold
    by (cases "raw_PollInterval r") (simp_all split: sum.split)
qed

lemma LoadConfig_section:
  assumes "ReadFile env (Join env (Path (rig e)) ''config.json'') = Inr data"
    and "Unmarshal_rawConfig env data = Inr (Some mq)"
    and "Unmarshal_mqRaw env mq = Inr r"
  shows "LoadConfig env e =
           (fst (applyRaw env r (config e)), e\<lparr>config := snd (applyRaw env r (config e))\<rparr>)"
  using assms by (simp add: LoadConfig_def split: prod.split)

lemma LoadConfig_frame:
  "snd (LoadConfig env e) = e\<lparr>config := config (snd (LoadConfig env e))\<rparr>"
  by (simp add: LoadConfig_def Let_def split: sum.split option.split prod.split)

text \<open>
  C2: an Engineer starts from the defaults. When the file does not exist, or the document
  has no \<^verbatim>\<open>merge_queue\<close> section, \<^verbatim>\<open>LoadConfig\<close> returns nil and changes nothing, so every
  field keeps its default. When the section is there, each field of the result is the
  value of its key if the key is set and the default if it is not, each key on its own;
  the interval is the parsed \<^verbatim>\<open>poll_interval\<close> (a value that does not parse leaves the
  default, and the load fails, see C5).
\<close>

theorem LoadConfig_sparse_override:
  assumes "config e = DefaultMergeQueueConfig"
  shows "config (NewEngineer b w rg) = DefaultMergeQueueConfig
    \<and> (ReadFile env (Join env (Path (rig e)) ''config.json'') = Inl err \<and> IsNotExist env err
         \<longrightarrow> LoadConfig env e = (None, e))
    \<and> (ReadFile env (Join env (Path (rig e)) ''config.json'') = Inr data
         \<and> Unmarshal_rawConfig env data = Inr None
         \<longrightarrow> LoadConfig env e = (None, e))
    \<and> (ReadFile env (Join env (Path (rig e)) ''config.json'') = Inr data
         \<and> Unmarshal_rawConfig env data = Inr (Some mq) \<and> Unmarshal_mqRaw env mq = Inr r
         \<longrightarrow> snd (LoadConfig env e) =
             e\<lparr>config :=
               \<lparr> Enabled = (case raw_Enabled r of None \<Rightarrow> True | Some v \<Rightarrow> v),
                 TargetBranch = (case raw_TargetBranch r of None \<Rightarrow> ''main'' | Some v \<Rightarrow> v),
                 IntegrationBranches =
                   (case raw_IntegrationBranches r of None \<Rightarrow> True | Some v \<Rightarrow> v),
                 OnConflict = (case raw_OnConflict r of None \<Rightarrow> ''assign_back'' | Some v \<Rightarrow> v),
                 RunTests = (case raw_RunTests r of None \<Rightarrow> True | Some v \<Rightarrow> v),
                 TestCommand = (case raw_TestCommand r of None \<Rightarrow> [] | Some v \<Rightarrow> v),
                 DeleteMergedBranches =
                   (case raw_DeleteMergedBranches r of None \<Rightarrow> True | Some v \<Rightarrow> v),
                 RetryFlakyTests = (case raw_RetryFlakyTests r of None \<Rightarrow> 1 | Some v \<Rightarrow> v),
                 PollInterval =
                   (case raw_PollInterval r of
                      None \<Rightarrow> 30000000000
                    | Some s \<Rightarrow>
                        (case ParseDuration env s of Inl err \<Rightarrow> 30000000000 | Inr d \<Rightarrow> d)),
                 MaxConcurrent = (case raw_MaxConcurrent r of None \<Rightarrow> 1 | Some v \<Rightarrow> v) \<rparr>\<rparr>)"
proof (intro conjI impI)
  show "config (NewEngineer b w rg) = DefaultMergeQueueConfig"
    by (simp add: NewEngineer_def)
next
  assume "ReadFile env (Join env (Path (rig e)) ''config.json'') = Inl err \<and> IsNotExist env err"
  then show "LoadConfig env e = (None, e)"
    by (simp add: LoadConfig_def)
next
  assume "ReadFile env (Join env (Path (rig e)) ''config.json'') = Inr data
    \<and> Unmarshal_rawConfig env data = Inr None"
  then show "LoadConfig env e = (None, e)"
    by (simp add: LoadConfig_def)
next
  assume "ReadFile env (Join env (Path (rig e)) ''config.json'') = Inr data
    \<and> Unmarshal_rawConfig env data = Inr (Some mq) \<and> Unmarshal_mqRaw env mq = Inr r"
  then have "LoadConfig env e =
      (fst (applyRaw env r (config e)), e\<lparr>config := snd (applyRaw env r (config e))\<rparr>)"
    by (simp add: LoadConfig_section)
  then show "snd (LoadConfig env e) =
             e\<lparr>config :=
               \<lparr> Enabled = (case raw_Enabled r of None \<Rightarrow> True | Some v \<Rightarrow> v),
                 TargetBranch = (case raw_TargetBranch r of None \<Rightarrow> ''main'' | Some v \<Rightarrow> v),
                 IntegrationBranches =
                   (case raw_IntegrationBranches r of None \<Rightarrow> True | Some v \<Rightarrow> v),
                 OnConflict = (case raw_OnConflict r of None \<Rightarrow> ''assign_back'' | Some v \<Rightarrow> v),
                 RunTests = (case raw_RunTests r of None \<Rightarrow> True | Some v \<Rightarrow> v),
                 TestCommand = (case raw_TestCommand r of None \<Rightarrow> [] | Some v \<Rightarrow> v),
                 DeleteMergedBranches =
                   (case raw_DeleteMergedBranches r of None \<Rightarrow> True | Some v \<Rightarrow> v),
                 RetryFlakyTests = (case raw_RetryFlakyTests r of None \<Rightarrow> 1 | Some v \<Rightarrow> v),
                 PollInterval =
                   (case raw_PollInterval r of
                      None \<Rightarrow> 30000000000
                    | Some s \<Rightarrow>
                        (case ParseDuration env s of Inl err \<Rightarrow> 30000000000 | Inr d \<Rightarrow> d)),
                 MaxConcurrent = (case raw_MaxConcurrent r of None \<Rightarrow> 1 | Some v \<Rightarrow> v) \<rparr>\<rparr>"
    by (simp add: applyRaw_config assms DefaultMergeQueueConfig_def Second_def
        cong: option.case_cong sum.case_cong)
qed

theorem LoadConfig_sparse_override_witness:
  "LoadConfig (ex_env (Inl (External ''no such file or directory'')) (ex_raw None None))
     (ex_engineer ex_queue []) = (None, ex_engineer ex_queue [])
   \<and> LoadConfig (ex_env (Inr ''{}'') (ex_raw None None)) (ex_engineer ex_queue [])
       = (None, ex_engineer ex_queue [])
   \<and> config (snd (LoadConfig
        (ex_env (Inr ''{merge_queue: {target_branch: release}}'') (ex_raw (Some ''release'') None))
        (ex_engineer ex_queue [])))
       = \<lparr> Enabled = True, TargetBranch = ''release'', IntegrationBranches = True,
           OnConflict = ''assign_back'', RunTests = True, TestCommand = [],
           DeleteMergedBranches = True, RetryFlakyTests = 1, PollInterval = 30000000000,
           MaxConcurrent = 1 \<rparr>"
proof -
  let ?e = "ex_engineer ex_queue []"
  let ?absent = "ex_env (Inl (External ''no such file or directory'')) (ex_raw None None)"
  let ?bare = "ex_env (Inr ''{}'') (ex_raw None None)"
  let ?release = "ex_env (Inr ''{merge_queue: {target_branch: release}}'')
                    (ex_raw (Some ''release'') None)"
  have defaults: "config ?e = DefaultMergeQueueConfig"
    by (simp add: ex_engineer_def NewEngineer_def)
  have absent: "ReadFile ?absent (Join ?absent (Path (rig ?e)) ''config.json'')
                  = Inl (External ''no such file or directory'')
                \<and> IsNotExist ?absent (External ''no such file or directory'')"
    by (simp add: ex_env_def ex_defs)
  have bare: "ReadFile ?bare (Join ?bare (Path (rig ?e)) ''config.json'') = Inr ''{}''
              \<and> Unmarshal_rawConfig ?bare ''{}'' = Inr None"
    by (simp add: ex_env_def ex_defs)
  have release: "ReadFile ?release (Join ?release (Path (rig ?e)) ''config.json'')
                   = Inr ''{merge_queue: {target_branch: release}}''
                 \<and> Unmarshal_rawConfig ?release ''{merge_queue: {target_branch: release}}''
                   = Inr (Some ''{merge_queue: {target_branch: release}}'')
                 \<and> Unmarshal_mqRaw ?release ''{merge_queue: {target_branch: release}}''
                   = Inr (ex_raw (Some ''release'') None)"
    by (simp add: ex_env_def ex_defs)
  have r1: "LoadConfig ?absent ?e = (None, ?e)"
    by (rule LoadConfig_sparse_override [OF defaults, THEN conjunct2, THEN conjunct1,
          THEN mp, OF absent])
  have r2: "LoadConfig ?bare ?e = (None, ?e)"
    by (rule LoadConfig_sparse_override [OF defaults, THEN conjunct2, THEN conjunct2,
          THEN conjunct1, THEN mp, OF bare])
  have r3: "snd (LoadConfig ?release ?e) =
      ?e\<lparr>config :=
        \<lparr> Enabled = True, TargetBranch = ''release'', IntegrationBranches = True,
          OnConflict = ''assign_back'', RunTests = True, TestCommand = [],
          DeleteMergedBranches = True, RetryFlakyTests = 1, PollInterval = 30000000000,
          MaxConcurrent = 1 \<rparr>\<rparr>"
    using LoadConfig_sparse_override [OF defaults, THEN conjunct2, THEN conjunct2,
        THEN conjunct2, THEN mp, OF release]
    by (simp add: ex_raw_def ex_env_def)
  from r1 r2 r3 show ?thesis
    by simp
qed

text \<open>
  C5: with a section whose \<^verbatim>\<open>poll_interval\<close> is set, the interval becomes what the
  duration parser returns for the string, unchanged: 30 seconds for \<^verbatim>\<open>30s\<close>. When the
  parser rejects the string, \<^verbatim>\<open>LoadConfig\<close> returns the error that wraps the parser's,
  the interval is not replaced by anything, and \<^verbatim>\<open>Run\<close> returns the loading error
  without making a single call.
\<close>

theorem LoadConfig_poll_interval:
  assumes readable: "ReadFile env (Join env (Path (rig e)) ''config.json'') = Inr data"
    and doc: "Unmarshal_rawConfig env data = Inr (Some mq)"
    and decoded: "Unmarshal_mqRaw env mq = Inr r"
    and key: "raw_PollInterval r = Some s"
  shows "(ParseDuration env s = Inr d
            \<longrightarrow> fst (LoadConfig env e) = None
              \<and> PollInterval (config (snd (LoadConfig env e))) = d)
       \<and> (s = ''30s'' \<and> ParseDuration env s = Inr (30 * Second)
            \<longrightarrow> fst (LoadConfig env e) = None
              \<and> PollInterval (config (snd (LoadConfig env e))) = 30000000000)
       \<and> (ParseDuration env s = Inl err
            \<longrightarrow> fst (LoadConfig env e)
                  = Some (Errorf ''invalid poll_interval %q: %w'' [s] (Some err))
              \<and> PollInterval (config (snd (LoadConfig env e))) = PollInterval (config e)
              \<and> fst (Run env done sched e)
                  = Return (Some (Errorf ''loading config: %w'' []
                      (Some (Errorf ''invalid poll_interval %q: %w'' [s] (Some err)))))
              \<and> trace (snd (Run env done sched e)) = trace e)"
proof -
  have load: "LoadConfig env e =
      (fst (applyRaw env r (config e)), e\<lparr>config := snd (applyRaw env r (config e))\<rparr>)"
    using readable doc decoded by (rule LoadConfig_section)
  show ?thesis
    by (auto simp add: load applyRaw_config applyRaw_result key Run_def Second_def)
qed

theorem LoadConfig_poll_interval_witness:
  "PollInterval (config (snd (LoadConfig
      (ex_env (Inr ''{merge_queue: {poll_interval: 30s}}'') (ex_raw None (Some ''30s'')))
      (ex_engineer ex_queue [])))) = 30000000000
   \<and> fst (LoadConfig
      (ex_env (Inr ''{merge_queue: {poll_interval: notaduration}}'')
         (ex_raw None (Some ''notaduration'')))
      (ex_engineer ex_queue []))
     = Some (Errorf ''invalid poll_interval %q: %w'' [''notaduration'']
         (Some (External ''time: invalid duration'')))"
proof -
  let ?e = "ex_engineer ex_queue []"
  let ?good = "ex_env (Inr ''{merge_queue: {poll_interval: 30s}}'') (ex_raw None (Some ''30s''))"
  let ?bad = "ex_env (Inr ''{merge_queue: {poll_interval: notaduration}}'')
                (ex_raw None (Some ''notaduration''))"
  have g1: "ReadFile ?good (Join ?good (Path (rig ?e)) ''config.json'')
              = Inr ''{merge_queue: {poll_interval: 30s}}''"
    by (simp add: ex_env_def ex_defs)
  have g2: "Unmarshal_rawConfig ?good ''{merge_queue: {poll_interval: 30s}}''
              = Inr (Some ''{merge_queue: {poll_interval: 30s}}'')"
    by (simp add: ex_env_def)
  have g3: "Unmarshal_mqRaw ?good ''{merge_queue: {poll_interval: 30s}}''
              = Inr (ex_raw None (Some ''30s''))"
    by (simp add: ex_env_def)
  have g4: "raw_PollInterval (ex_raw None (Some ''30s'')) = Some ''30s''"
    by (simp add: ex_raw_def)
  have g5: "ParseDuration ?good ''30s'' = Inr (30 * Second)"
    by (simp add: ex_env_def)
  have b1: "ReadFile ?bad (Join ?bad (Path (rig ?e)) ''config.json'')
              = Inr ''{merge_queue: {poll_interval: notaduration}}''"
    by (simp add: ex_env_def ex_defs)
  have b2: "Unmarshal_rawConfig ?bad ''{merge_queue: {poll_interval: notaduration}}''
              = Inr (Some ''{merge_queue: {poll_interval: notaduration}}'')"
    by (simp add: ex_env_def)
  have b3: "Unmarshal_mqRaw ?bad ''{merge_queue: {poll_interval: notaduration}}''
              = Inr (ex_raw None (Some ''notaduration''))"
    by (simp add: ex_env_def)
  have b4: "raw_PollInterval (ex_raw None (Some ''notaduration'')) = Some ''notaduration''"
    by (simp add: ex_raw_def)
  have b5: "ParseDuration ?bad ''notaduration'' = Inl (External ''time: invalid duration'')"
    by (simp add: ex_env_def)
  from LoadConfig_poll_interval [OF g1 g2 g3 g4, where d = "30 * Second"] g5
    LoadConfig_poll_interval [OF b1 b2 b3 b4, where err = "External ''time: invalid duration''"] b5
  show ?thesis
    by (simp add: Second_def)
qed

subsection \<open>Starting and stopping\<close>

text \<open>
  C6: when the configuration that \<^verbatim>\<open>LoadConfig\<close> leaves behind has \<^verbatim>\<open>Enabled\<close> false,
  \<^verbatim>\<open>Run\<close> returns an error whatever the context and the schedule are: the disabled error
  when the load succeeded, the loading error otherwise. The Engineer it leaves behind
  differs from the one it started with in the configuration only: no ticker was created,
  no call was made on the tracker, nothing was printed.
\<close>

theorem Run_disabled:
  assumes "\<not> Enabled (config (snd (LoadConfig env e)))"
  shows "fst (Run env done sched e) =
           Return (Some (case fst (LoadConfig env e) of
                           Some err \<Rightarrow> Errorf ''loading config: %w'' [] (Some err)
                         | None \<Rightarrow> Errorf ''merge queue is disabled in configuration'' [] None))
       \<and> snd (Run env done sched e) = e\<lparr>config := config (snd (LoadConfig env e))\<rparr>"
proof -
  obtain res e1 where load: "LoadConfig env e = (res, e1)"
    by (cases "LoadConfig env e")
  with LoadConfig_frame [of env e] have frame: "e1 = e\<lparr>config := config e1\<rparr>"
    by simp
  from assms load have off: "\<not> Enabled (config e1)"
    by simp
  show ?thesis
  proof (cases res)
    case None
    with load off frame show ?thesis
      by (simp add: Run_def)
  next
    case (Some err)
    with load frame show ?thesis
      by (simp add: Run_def)
  qed
qed

theorem Run_disabled_witness:
  "Run (ex_env (Inr ''{merge_queue: {enabled: false}}'')
          ((ex_raw None None)\<lparr>raw_Enabled := Some False\<rparr>))
     False [Tick False, CtxDone] (ex_engineer ex_queue [])
   = (Return (Some (Errorf ''merge queue is disabled in configuration'' [] None)),
      (ex_engineer ex_queue [])\<lparr>config := DefaultMergeQueueConfig\<lparr>Enabled := False\<rparr>\<rparr>)"
proof -
  let ?e = "ex_engineer ex_queue []"
  let ?env = "ex_env (Inr ''{merge_queue: {enabled: false}}'')
                ((ex_raw None None)\<lparr>raw_Enabled := Some False\<rparr>)"
  have load: "LoadConfig ?env ?e = (None, ?e\<lparr>config := DefaultMergeQueueConfig\<lparr>Enabled := False\<rparr>\<rparr>)"
    by (simp add: LoadConfig_def applyRaw_def ex_env_def ex_raw_def ex_defs Let_def)
  have off: "\<not> Enabled (config (snd (LoadConfig ?env ?e)))"
    by (simp add: load)
  from Run_disabled [OF off, of False "[Tick False, CtxDone]"] load show ?thesis
    by (simp add: prod_eq_iff)
qed

text \<open>
  C9: on an Engineer whose stop channel is open, as \<^verbatim>\<open>NewEngineer\<close> makes it, the first
  \<^verbatim>\<open>Stop\<close> returns with the channel closed and changes nothing else; a second \<^verbatim>\<open>Stop\<close>
  on the Engineer the first one left panics, closing a closed channel.
\<close>

theorem Stop_twice_panics:
  assumes "stopCh e = OpenChan"
  shows "Stop e = Inr (e\<lparr>stopCh := ClosedChan\<rparr>)
       \<and> Stop (e\<lparr>stopCh := ClosedChan\<rparr>) = Inl ''close of closed channel''"
  using assms by (simp add: Stop_def close_chan_def)

theorem Stop_twice_panics_witness:
  "Stop (NewEngineer (store_Beads ex_parse) \<lparr> issues = ex_queue, replies = [] \<rparr> ex_rig)
     = Inr ((NewEngineer (store_Beads ex_parse) \<lparr> issues = ex_queue, replies = [] \<rparr> ex_rig)
              \<lparr>stopCh := ClosedChan\<rparr>)
   \<and> Stop ((NewEngineer (store_Beads ex_parse) \<lparr> issues = ex_queue, replies = [] \<rparr> ex_rig)
              \<lparr>stopCh := ClosedChan\<rparr>)
     = Inl ''close of closed channel''"
proof -
  have opened: "stopCh (NewEngineer (store_Beads ex_parse) \<lparr> issues = ex_queue, replies = [] \<rparr> ex_rig)
                  = OpenChan"
    by (simp add: NewEngineer_def)
  from Stop_twice_panics [OF opened] show ?thesis .
qed

subsection \<open>Reconciling the outcome\<close>

lemma handleFailure_eq:
  assumes "Update (beads e) (ID mr) \<lparr>opt_Status = Some ''open''\<rparr> (world e) = (r, w)"
  shows "handleFailure mr result e =
           e\<lparr>world := w,
             trace := trace e @ [UpdateCall (ID mr) \<lparr>opt_Status = Some ''open''\<rparr>],
             out := out e @
               (case r of
                  Some err \<Rightarrow> [Printf ''[Engineer] Warning: failed to reopen MR %s: %v\<newline>''
                                [Str (ID mr), Err err]]
                | None \<Rightarrow> []) @
               [Printf (''[Engineer] '' @ ballot_x @ '' Failed: %s - %s\<newline>'')
                  [Str (ID mr), Str (Error result)]]\<rparr>"
  using assms by (simp add: handleFailure_def step_defs Let_def split: option.split)

lemma store_Update_ok:
  assumes "store_Update i \<lparr>opt_Status = Some s\<rparr> w = (None, w')"
    and "i \<in> ID ` set (issues w)"
  shows "status_of w' i = Some s"
proof -
  have found: "map_option Status (find (\<lambda>x. ID x = i)
        (map (\<lambda>x. if ID x = i then x\<lparr>Status := s\<rparr> else x) xs)) = Some s"
    if "i \<in> ID ` set xs" for xs
    using that by (induction xs) auto
  from assms(1) have "issues w' = map (\<lambda>x. if ID x = i then x\<lparr>Status := s\<rparr> else x) (issues w)"
    by (auto simp: store_Update_def next_reply_def split: list.splits option.splits)
  with found [OF assms(2)] show ?thesis
    by (simp add: status_of_def)
qed

lemma store_Update_failed:
  assumes "store_Update i opts w = (Some err, w')"
  shows "issues w' = issues w"
  using assms
  by (auto simp: store_Update_def next_reply_def split: list.splits option.splits)

lemma processOnce_with_pipeline:
  assumes "ReadyWithType (beads e) ''merge-request'' (world e) = (Inr readyMRs, w1)"
    and "readyMRs \<noteq> []"
    and "Update (beads e) (ID (readyMRs ! 0)) \<lparr>opt_Status = Some ''in_progress''\<rparr> w1 = (None, w2)"
    and "pipeline (readyMRs ! 0)
           (e\<lparr>out := out e @ [Printf ''[Engineer] Processing: %s (%s)\<newline>''
                [Str (ID (readyMRs ! 0)), Str (Title (readyMRs ! 0))]],
              world := w2,
              trace := trace e @ [ReadyWithTypeCall ''merge-request'',
                UpdateCall (ID (readyMRs ! 0)) \<lparr>opt_Status = Some ''in_progress''\<rparr>]\<rparr>)
         = (result, e4)"
  shows "processOnce_with pipeline False e =
    (if Success result then
       (case beads_CloseWithReason (''merged: '' @ MergeCommit result) [ID (readyMRs ! 0)] e4 of
          (r, e5) \<Rightarrow>
            (None, print (Printf (''[Engineer] '' @ check_mark @ '' Merged: %s\<newline>'')
                            [Str (ID (readyMRs ! 0))])
                     (case r of
                        Some err \<Rightarrow>
                          print (Printf ''[Engineer] Warning: failed to close MR %s: %v\<newline>''
                                   [Str (ID (readyMRs ! 0)), Err err]) e5
                      | None \<Rightarrow> e5)))
     else (None, handleFailure (readyMRs ! 0) result e4))"
  using assms
  by (simp add: processOnce_with_def beads_ReadyWithType_def beads_Update_def print_def Let_def)

text \<open>
  C3, as the code has it: the failure handler makes one call, the update of the item to
  \<^verbatim>\<open>open\<close>, whatever the strategy; it prints a warning when that update fails, and then
  the line that carries the identifier and the error string. It returns no error, and a
  cycle whose pipeline reports a failure returns nil. On the list tracker the item is
  open afterwards when the update succeeds, and the issues are as they were when it
  fails.
\<close>

theorem handleFailure_reopens:
  assumes "Update (beads e) (ID mr) \<lparr>opt_Status = Some ''open''\<rparr> (world e) = (r, w)"
  shows "handleFailure mr result e =
           e\<lparr>world := w,
             trace := trace e @ [UpdateCall (ID mr) \<lparr>opt_Status = Some ''open''\<rparr>],
             out := out e @
               (case r of
                  Some err \<Rightarrow> [Printf ''[Engineer] Warning: failed to reopen MR %s: %v\<newline>''
                                [Str (ID mr), Err err]]
                | None \<Rightarrow> []) @
               [Printf (''[Engineer] '' @ ballot_x @ '' Failed: %s - %s\<newline>'')
                  [Str (ID mr), Str (Error result)]]\<rparr>
    \<and> (ReadyWithType (beads e0) ''merge-request'' (world e0) = (Inr readyMRs, w1)
         \<and> readyMRs \<noteq> []
         \<and> Update (beads e0) (ID (readyMRs ! 0)) \<lparr>opt_Status = Some ''in_progress''\<rparr> w1
             = (None, w2)
         \<and> pipeline (readyMRs ! 0)
             (e0\<lparr>out := out e0 @ [Printf ''[Engineer] Processing: %s (%s)\<newline>''
                  [Str (ID (readyMRs ! 0)), Str (Title (readyMRs ! 0))]],
                world := w2,
                trace := trace e0 @ [ReadyWithTypeCall ''merge-request'',
                  UpdateCall (ID (readyMRs ! 0)) \<lparr>opt_Status = Some ''in_progress''\<rparr>]\<rparr>)
             = (res, e4)
         \<and> \<not> Success res
         \<longrightarrow> processOnce_with pipeline False e0 = (None, handleFailure (readyMRs ! 0) res e4))
    \<and> (beads es = store_Beads parse \<and> ID mr \<in> ID ` set (issues (world es))
         \<and> store_Update (ID mr) \<lparr>opt_Status = Some ''open''\<rparr> (world es) = (None, ws)
         \<longrightarrow> status_of (world (handleFailure mr result es)) (ID mr) = Some ''open'')
    \<and> (beads es = store_Beads parse
         \<and> store_Update (ID mr) \<lparr>opt_Status = Some ''open''\<rparr> (world es) = (Some err, ws)
         \<longrightarrow> issues (world (handleFailure mr result es)) = issues (world es))"
proof (intro conjI impI)
  show "handleFailure mr result e =
           e\<lparr>world := w,
             trace := trace e @ [UpdateCall (ID mr) \<lparr>opt_Status = Some ''open''\<rparr>],
             out := out e @
               (case r of
                  Some err \<Rightarrow> [Printf ''[Engineer] Warning: failed to reopen MR %s: %v\<newline>''
                                [Str (ID mr), Err err]]
                | None \<Rightarrow> []) @
               [Printf (''[Engineer] '' @ ballot_x @ '' Failed: %s - %s\<newline>'')
                  [Str (ID mr), Str (Error result)]]\<rparr>"
    using assms by (rule handleFailure_eq)
next
  assume "ReadyWithType (beads e0) ''merge-request'' (world e0) = (Inr readyMRs, w1)
         \<and> readyMRs \<noteq> []
         \<and> Update (beads e0) (ID (readyMRs ! 0)) \<lparr>opt_Status = Some ''in_progress''\<rparr> w1
             = (None, w2)
         \<and> pipeline (readyMRs ! 0)
             (e0\<lparr>out := out e0 @ [Printf ''[Engineer] Processing: %s (%s)\<newline>''
                  [Str (ID (readyMRs ! 0)), Str (Title (readyMRs ! 0))]],
                world := w2,
                trace := trace e0 @ [ReadyWithTypeCall ''merge-request'',
                  UpdateCall (ID (readyMRs ! 0)) \<lparr>opt_Status = Some ''in_progress''\<rparr>]\<rparr>)
             = (res, e4)
         \<and> \<not> Success res"
  then show "processOnce_with pipeline False e0 = (None, handleFailure (readyMRs ! 0) res e4)"
    by (simp add: processOnce_with_pipeline)
next
  assume a: "beads es = store_Beads parse \<and> ID mr \<in> ID ` set (issues (world es))
         \<and> store_Update (ID mr) \<lparr>opt_Status = Some ''open''\<rparr> (world es) = (None, ws)"
  then have "Update (beads es) (ID mr) \<lparr>opt_Status = Some ''open''\<rparr> (world es) = (None, ws)"
    by (simp add: store_Beads_def)
  then have "world (handleFailure mr result es) = ws"
    by (simp add: handleFailure_eq)
  with a store_Update_ok [of "ID mr" "''open''" "world es" ws]
  show "status_of (world (handleFailure mr result es)) (ID mr) = Some ''open''"
    by simp
next
  assume a: "beads es = store_Beads parse
         \<and> store_Update (ID mr) \<lparr>opt_Status = Some ''open''\<rparr> (world es) = (Some err, ws)"
  then have "Update (beads es) (ID mr) \<lparr>opt_Status = Some ''open''\<rparr> (world es) = (Some err, ws)"
    by (simp add: store_Beads_def)
  then have "world (handleFailure mr result es) = ws"
    by (simp add: handleFailure_eq)
  with a store_Update_failed [of "ID mr" "\<lparr>opt_Status = Some ''open''\<rparr>" "world es" err ws]
  show "issues (world (handleFailure mr result es)) = issues (world es)"
    by simp
qed

theorem handleFailure_reopens_witness:
  "status_of (world (handleFailure (ex_mr ''gt-1'' ''in_progress'') ex_conflict
      (ex_engineer [ex_mr ''gt-1'' ''in_progress''] []))) ''gt-1'' = Some ''open''
   \<and> out (handleFailure (ex_mr ''gt-1'' ''in_progress'') ex_conflict
      (ex_engineer [ex_mr ''gt-1'' ''in_progress''] [])) =
       [Printf (''[Engineer] '' @ ballot_x @ '' Failed: %s - %s\<newline>'')
          [Str ''gt-1'', Str ''merge conflict in go.mod'']]
   \<and> issues (world (handleFailure (ex_mr ''gt-1'' ''in_progress'') ex_conflict ex_stuck))
       = [ex_mr ''gt-1'' ''in_progress'']
   \<and> fst (processOnce_with ex_conflicted False (ex_engineer ex_queue [])) = None"
proof -
  let ?mr = "ex_mr ''gt-1'' ''in_progress''"
  let ?e = "ex_engineer [?mr] []"
  let ?reopened = "\<lparr> issues = [ex_mr ''gt-1'' ''open''], replies = [] \<rparr>"
  let ?start = "ex_engineer ex_queue []"
  let ?held = "\<lparr> issues = [?mr, ex_mr ''gt-2'' ''open''], replies = [] \<rparr>"
  let ?claimed = "?start\<lparr>out := out ?start @ [Printf ''[Engineer] Processing: %s (%s)\<newline>''
                [Str (ID (ex_queue ! 0)), Str (Title (ex_queue ! 0))]],
              world := ?held,
              trace := trace ?start @ [ReadyWithTypeCall ''merge-request'',
                UpdateCall (ID (ex_queue ! 0)) \<lparr>opt_Status = Some ''in_progress''\<rparr>]\<rparr>"
  have reopen: "Update (beads ?e) (ID ?mr) \<lparr>opt_Status = Some ''open''\<rparr> (world ?e)
                  = (None, ?reopened)"
    by (simp add: ex_defs)
  have cycle: "ReadyWithType (beads ?start) ''merge-request'' (world ?start) = (Inr ex_queue, world ?start)
         \<and> ex_queue \<noteq> []
         \<and> Update (beads ?start) (ID (ex_queue ! 0)) \<lparr>opt_Status = Some ''in_progress''\<rparr> (world ?start)
             = (None, ?held)
         \<and> ex_conflicted (ex_queue ! 0) ?claimed = (ex_conflict, ?claimed)
         \<and> \<not> Success ex_conflict"
    by (simp add: ex_defs ex_conflicted_def ex_conflict_def)
  have accepted: "beads ?e = store_Beads ex_parse \<and> ID ?mr \<in> ID ` set (issues (world ?e))
         \<and> store_Update (ID ?mr) \<lparr>opt_Status = Some ''open''\<rparr> (world ?e) = (None, ?reopened)"
    by (simp add: ex_defs)
  have refused: "beads ex_stuck = store_Beads ex_parse
         \<and> store_Update (ID ?mr) \<lparr>opt_Status = Some ''open''\<rparr> (world ex_stuck)
             = (Some (External ''bd update failed''), \<lparr> issues = [?mr], replies = [] \<rparr>)"
    by (simp add: ex_defs ex_stuck_def)
  note all = handleFailure_reopens [where pipeline = ex_conflicted and result = ex_conflict
      and ?e0.0 = ?start and es = ?e and parse = ex_parse, OF reopen]
  note failing = handleFailure_reopens [where pipeline = ex_conflicted and result = ex_conflict
      and es = ex_stuck and parse = ex_parse, OF reopen]
  have r1: "handleFailure ?mr ex_conflict ?e =
      ?e\<lparr>world := ?reopened,
         trace := trace ?e @ [UpdateCall (ID ?mr) \<lparr>opt_Status = Some ''open''\<rparr>],
         out := out ?e @ [] @
           [Printf (''[Engineer] '' @ ballot_x @ '' Failed: %s - %s\<newline>'')
              [Str (ID ?mr), Str (Error ex_conflict)]]\<rparr>"
    using all [THEN conjunct1] by simp
  have r2: "processOnce_with ex_conflicted False ?start
              = (None, handleFailure (ex_queue ! 0) ex_conflict ?claimed)"
    by (rule all [THEN conjunct2, THEN conjunct1, THEN mp, OF cycle])
  have r3: "status_of (world (handleFailure ?mr ex_conflict ?e)) (ID ?mr) = Some ''open''"
    by (rule all [THEN conjunct2, THEN conjunct2, THEN conjunct1, THEN mp, OF accepted])
  have r4: "issues (world (handleFailure ?mr ex_conflict ex_stuck)) = issues (world ex_stuck)"
    by (rule failing [THEN conjunct2, THEN conjunct2, THEN conjunct2, THEN mp, OF refused])
  from r1 r2 r3 r4 show ?thesis
    by (simp add: ex_defs ex_stuck_def ex_conflict_def)
qed

text \<open>
  C3 as the claim states it fails where the tracker refuses the update: the item was
  claimed, the pipeline reported a conflict, the strategy is \<^verbatim>\<open>assign_back\<close>, and after
  the handler the item is still \<^verbatim>\<open>in_progress\<close>.
\<close>

theorem handleFailure_reopen_counterexample:
  "OnConflict (config ex_stuck) = ''assign_back''
   \<and> \<not> Success ex_conflict
   \<and> status_of (world (handleFailure (ex_mr ''gt-1'' ''in_progress'') ex_conflict ex_stuck))
       ''gt-1'' = Some ''in_progress''
   \<and> out (handleFailure (ex_mr ''gt-1'' ''in_progress'') ex_conflict ex_stuck) =
       [Printf ''[Engineer] Warning: failed to reopen MR %s: %v\<newline>''
          [Str ''gt-1'', Err (External ''bd update failed'')],
        Printf (''[Engineer] '' @ ballot_x @ '' Failed: %s - %s\<newline>'')
          [Str ''gt-1'', Str ''merge conflict in go.mod'']]"
  by (simp add: handleFailure_def step_defs ex_defs ex_stuck_def ex_conflict_def
      DefaultMergeQueueConfig_def Let_def)




subsection \<open>The placeholder pipeline\<close>

lemma ProcessMR_result:
  "fst (ProcessMR mr e) =
     \<lparr> Success = False, MergeCommit = [],
       Error = (case ParseMRFields (beads e) mr of
                  None \<Rightarrow> ''no MR fields found in description''
                | Some f \<Rightarrow> ''ProcessMR not fully implemented (see gt-3x1.2)''),
       Conflict = False, TestsFailed = False \<rparr>"
  by (simp add: ProcessMR_def step_defs Let_def split: option.split)

lemma ProcessMR_state:
  "trace (snd (ProcessMR mr e)) = trace e @ [ParseMRFieldsCall mr]"
  "world (snd (ProcessMR mr e)) = world e"
  "beads (snd (ProcessMR mr e)) = beads e"
  by (simp_all add: ProcessMR_def step_defs Let_def split: option.split)

lemma handleFailure_state:
  "trace (handleFailure mr result e) = trace e @ [UpdateCall (ID mr) \<lparr>opt_Status = Some ''open''\<rparr>]"
  "world (handleFailure mr result e)
     = snd (Update (beads e) (ID mr) \<lparr>opt_Status = Some ''open''\<rparr> (world e))"
  by (simp_all add: handleFailure_def step_defs Let_def split: prod.split option.split)

lemma processOnce_no_close:
  "\<exists>ext. trace (snd (processOnce done e)) = trace e @ ext
         \<and> (\<forall>reason ids. CloseWithReasonCall reason ids \<notin> set ext)"
proof (cases "done")
  case True
  then show ?thesis
    by (simp add: processOnce_def processOnce_with_def)
next
  case False
  obtain q w1 where ready: "ReadyWithType (beads e) ''merge-request'' (world e) = (q, w1)"
    by (cases "ReadyWithType (beads e) ''merge-request'' (world e)")
  show ?thesis
  proof (cases q)
    case (Inl err)
    with False ready show ?thesis
      by (simp add: processOnce_def processOnce_with_def beads_ReadyWithType_def)
  next
    case (Inr readyMRs)
    show ?thesis
    proof (cases "readyMRs = []")
      case True
      with False ready Inr show ?thesis
        by (simp add: processOnce_def processOnce_with_def beads_ReadyWithType_def)
    next
      case nonempty: False
      obtain r w2 where claim:
        "Update (beads e) (ID (readyMRs ! 0)) \<lparr>opt_Status = Some ''in_progress''\<rparr> w1 = (r, w2)"
        by (cases "Update (beads e) (ID (readyMRs ! 0)) \<lparr>opt_Status = Some ''in_progress''\<rparr> w1")
      show ?thesis
      proof (cases r)
        case (Some err)
        with False ready Inr nonempty claim show ?thesis
          by (simp add: processOnce_def processOnce_with_def step_defs Let_def)
      next
        case None
        with False ready Inr nonempty claim
        have "trace (snd (processOnce done e)) =
                trace e @ [ReadyWithTypeCall ''merge-request'',
                  UpdateCall (ID (readyMRs ! 0)) \<lparr>opt_Status = Some ''in_progress''\<rparr>,
                  ParseMRFieldsCall (readyMRs ! 0),
                  UpdateCall (ID (readyMRs ! 0)) \<lparr>opt_Status = Some ''open''\<rparr>]"
          by (auto simp add: processOnce_def processOnce_with_def step_defs Let_def
              handleFailure_def ProcessMR_def split: option.split prod.split)
        then show ?thesis
          by simp
      qed
    qed
  qed
qed

text \<open>
  C10, as the code has it: \<^verbatim>\<open>ProcessMR\<close> reports a failure for every item, with a
  non-empty error and neither flag set, whether or not the description parses. So no
  cycle calls \<^verbatim>\<open>CloseWithReason\<close>, and a cycle that claimed its item hands it to the
  failure handler, whose update is the last call of the cycle. On the list tracker the
  item is open again when that update succeeds.
\<close>

theorem ProcessMR_never_succeeds:
  "fst (ProcessMR mr e) =
     \<lparr> Success = False, MergeCommit = [],
       Error = (case ParseMRFields (beads e) mr of
                  None \<Rightarrow> ''no MR fields found in description''
                | Some f \<Rightarrow> ''ProcessMR not fully implemented (see gt-3x1.2)''),
       Conflict = False, TestsFailed = False \<rparr>
   \<and> Error (fst (ProcessMR mr e)) \<noteq> []
   \<and> (\<exists>ext. trace (snd (processOnce done e)) = trace e @ ext
         \<and> (\<forall>reason ids. CloseWithReasonCall reason ids \<notin> set ext))
   \<and> (ReadyWithType (beads e) ''merge-request'' (world e) = (Inr readyMRs, w1)
        \<and> readyMRs \<noteq> []
        \<and> Update (beads e) (ID (readyMRs ! 0)) \<lparr>opt_Status = Some ''in_progress''\<rparr> w1
            = (None, w2)
        \<and> ProcessMR (readyMRs ! 0)
             (e\<lparr>out := out e @ [Printf ''[Engineer] Processing: %s (%s)\<newline>''
                  [Str (ID (readyMRs ! 0)), Str (Title (readyMRs ! 0))]],
                world := w2,
                trace := trace e @ [ReadyWithTypeCall ''merge-request'',
                  UpdateCall (ID (readyMRs ! 0)) \<lparr>opt_Status = Some ''in_progress''\<rparr>]\<rparr>)
            = (result, e4)
        \<longrightarrow> processOnce False e = (None, handleFailure (readyMRs ! 0) result e4)
          \<and> trace (snd (processOnce False e)) =
              trace e @ [ReadyWithTypeCall ''merge-request'',
                UpdateCall (ID (readyMRs ! 0)) \<lparr>opt_Status = Some ''in_progress''\<rparr>,
                ParseMRFieldsCall (readyMRs ! 0),
                UpdateCall (ID (readyMRs ! 0)) \<lparr>opt_Status = Some ''open''\<rparr>])
   \<and> (beads es = store_Beads parse
        \<and> store_ReadyWithType ''merge-request'' (world es) = (Inr queue, v1)
        \<and> queue \<noteq> []
        \<and> store_Update (ID (queue ! 0)) \<lparr>opt_Status = Some ''in_progress''\<rparr> v1 = (None, v2)
        \<and> store_Update (ID (queue ! 0)) \<lparr>opt_Status = Some ''open''\<rparr> v2 = (None, v3)
        \<and> ID (queue ! 0) \<in> ID ` set (issues v2)
        \<longrightarrow> status_of (world (snd (processOnce False es))) (ID (queue ! 0)) = Some ''open'')"
proof (intro conjI impI)
  show result: "fst (ProcessMR mr e) =
     \<lparr> Success = False, MergeCommit = [],
       Error = (case ParseMRFields (beads e) mr of
                  None \<Rightarrow> ''no MR fields found in description''
                | Some f \<Rightarrow> ''ProcessMR not fully implemented (see gt-3x1.2)''),
       Conflict = False, TestsFailed = False \<rparr>"
    by (rule ProcessMR_result)
  show "Error (fst (ProcessMR mr e)) \<noteq> []"
    by (simp add: ProcessMR_result split: option.split)
  show "\<exists>ext. trace (snd (processOnce done e)) = trace e @ ext
         \<and> (\<forall>reason ids. CloseWithReasonCall reason ids \<notin> set ext)"
    by (rule processOnce_no_close)
next
  assume a: "ReadyWithType (beads e) ''merge-request'' (world e) = (Inr readyMRs, w1)
        \<and> readyMRs \<noteq> []
        \<and> Update (beads e) (ID (readyMRs ! 0)) \<lparr>opt_Status = Some ''in_progress''\<rparr> w1
            = (None, w2)
        \<and> ProcessMR (readyMRs ! 0)
             (e\<lparr>out := out e @ [Printf ''[Engineer] Processing: %s (%s)\<newline>''
                  [Str (ID (readyMRs ! 0)), Str (Title (readyMRs ! 0))]],
                world := w2,
                trace := trace e @ [ReadyWithTypeCall ''merge-request'',
                  UpdateCall (ID (readyMRs ! 0)) \<lparr>opt_Status = Some ''in_progress''\<rparr>]\<rparr>)
            = (result, e4)"
  let ?claimed = "e\<lparr>out := out e @ [Printf ''[Engineer] Processing: %s (%s)\<newline>''
                  [Str (ID (readyMRs ! 0)), Str (Title (readyMRs ! 0))]],
                world := w2,
                trace := trace e @ [ReadyWithTypeCall ''merge-request'',
                  UpdateCall (ID (readyMRs ! 0)) \<lparr>opt_Status = Some ''in_progress''\<rparr>]\<rparr>"
  from a have "result = fst (ProcessMR (readyMRs ! 0) ?claimed)"
    by simp
  then have failed: "\<not> Success result"
    by (simp add: ProcessMR_result)
  from a have e4: "e4 = snd (ProcessMR (readyMRs ! 0) ?claimed)"
    by simp
  from a failed show handed: "processOnce False e = (None, handleFailure (readyMRs ! 0) result e4)"
    by (simp add: processOnce_def processOnce_with_pipeline [where pipeline = ProcessMR])
  show "trace (snd (processOnce False e)) =
              trace e @ [ReadyWithTypeCall ''merge-request'',
                UpdateCall (ID (readyMRs ! 0)) \<lparr>opt_Status = Some ''in_progress''\<rparr>,
                ParseMRFieldsCall (readyMRs ! 0),
                UpdateCall (ID (readyMRs ! 0)) \<lparr>opt_Status = Some ''open''\<rparr>]"
    by (simp add: handed handleFailure_state e4 ProcessMR_state)
next
  assume a: "beads es = store_Beads parse
        \<and> store_ReadyWithType ''merge-request'' (world es) = (Inr queue, v1)
        \<and> queue \<noteq> []
        \<and> store_Update (ID (queue ! 0)) \<lparr>opt_Status = Some ''in_progress''\<rparr> v1 = (None, v2)
        \<and> store_Update (ID (queue ! 0)) \<lparr>opt_Status = Some ''open''\<rparr> v2 = (None, v3)
        \<and> ID (queue ! 0) \<in> ID ` set (issues v2)"
  let ?claimed = "es\<lparr>out := out es @ [Printf ''[Engineer] Processing: %s (%s)\<newline>''
                  [Str (ID (queue ! 0)), Str (Title (queue ! 0))]],
                world := v2,
                trace := trace es @ [ReadyWithTypeCall ''merge-request'',
                  UpdateCall (ID (queue ! 0)) \<lparr>opt_Status = Some ''in_progress''\<rparr>]\<rparr>"
  obtain result e4 where pipe: "ProcessMR (queue ! 0) ?claimed = (result, e4)"
    by (cases "ProcessMR (queue ! 0) ?claimed")
  then have "result = fst (ProcessMR (queue ! 0) ?claimed)"
    and e4: "e4 = snd (ProcessMR (queue ! 0) ?claimed)"
    by simp_all
  then have failed: "\<not> Success result"
    by (simp add: ProcessMR_result)
  from a have ready: "ReadyWithType (beads es) ''merge-request'' (world es) = (Inr queue, v1)"
    and claim: "Update (beads es) (ID (queue ! 0)) \<lparr>opt_Status = Some ''in_progress''\<rparr> v1
                  = (None, v2)"
    and nonempty: "queue \<noteq> []"
    by (simp_all add: store_Beads_def)
  from failed have "processOnce False es = (None, handleFailure (queue ! 0) result e4)"
    by (simp add: processOnce_def
        processOnce_with_pipeline [where pipeline = ProcessMR, OF ready nonempty claim pipe])
  with a have "world (snd (processOnce False es)) = v3"
    by (simp add: handleFailure_state e4 ProcessMR_state store_Beads_def)
  with a store_Update_ok [of "ID (queue ! 0)" "''open''" v2 v3]
  show "status_of (world (snd (processOnce False es))) (ID (queue ! 0)) = Some ''open''"
    by simp
qed

theorem ProcessMR_never_succeeds_witness:
  "processOnce False (ex_engineer ex_queue []) =
     (None, handleFailure (ex_mr ''gt-1'' ''open'')
       \<lparr> Success = False, MergeCommit = [],
         Error = ''ProcessMR not fully implemented (see gt-3x1.2)'',
         Conflict = False, TestsFailed = False \<rparr>
       (snd (ProcessMR (ex_mr ''gt-1'' ''open'')
          ((ex_engineer ex_queue [])
             \<lparr>out := [Printf ''[Engineer] Processing: %s (%s)\<newline>''
                        [Str ''gt-1'', Str ''Merge work'']],
               world := \<lparr> issues = [ex_mr ''gt-1'' ''in_progress'', ex_mr ''gt-2'' ''open''],
                          replies = [] \<rparr>,
               trace := [ReadyWithTypeCall ''merge-request'',
                         UpdateCall ''gt-1'' \<lparr>opt_Status = Some ''in_progress''\<rparr>]\<rparr>))))
   \<and> status_of (world (snd (processOnce False (ex_engineer ex_queue [])))) ''gt-1'' = Some ''open''"
proof -
  let ?e = "ex_engineer ex_queue []"
  let ?held = "\<lparr> issues = [ex_mr ''gt-1'' ''in_progress'', ex_mr ''gt-2'' ''open''],
                  replies = [] \<rparr>"
  let ?claimed = "?e\<lparr>out := out ?e @ [Printf ''[Engineer] Processing: %s (%s)\<newline>''
                  [Str (ID (ex_queue ! 0)), Str (Title (ex_queue ! 0))]],
                world := ?held,
                trace := trace ?e @ [ReadyWithTypeCall ''merge-request'',
                  UpdateCall (ID (ex_queue ! 0)) \<lparr>opt_Status = Some ''in_progress''\<rparr>]\<rparr>"
  let ?result = "\<lparr> Success = False, MergeCommit = [],
         Error = ''ProcessMR not fully implemented (see gt-3x1.2)'',
         Conflict = False, TestsFailed = False \<rparr>"
  have cycle: "ReadyWithType (beads ?e) ''merge-request'' (world ?e) = (Inr ex_queue, world ?e)
        \<and> ex_queue \<noteq> []
        \<and> Update (beads ?e) (ID (ex_queue ! 0)) \<lparr>opt_Status = Some ''in_progress''\<rparr> (world ?e)
            = (None, ?held)
        \<and> ProcessMR (ex_queue ! 0) ?claimed = (?result, snd (ProcessMR (ex_queue ! 0) ?claimed))"
    by (simp add: ex_defs ProcessMR_def step_defs Let_def)
  have store: "beads ?e = store_Beads ex_parse
        \<and> store_ReadyWithType ''merge-request'' (world ?e) = (Inr ex_queue, world ?e)
        \<and> ex_queue \<noteq> []
        \<and> store_Update (ID (ex_queue ! 0)) \<lparr>opt_Status = Some ''in_progress''\<rparr> (world ?e)
            = (None, ?held)
        \<and> store_Update (ID (ex_queue ! 0)) \<lparr>opt_Status = Some ''open''\<rparr> ?held
            = (None, world ?e)
        \<and> ID (ex_queue ! 0) \<in> ID ` set (issues ?held)"
    by (simp add: ex_defs)
  note inst = ProcessMR_never_succeeds [where e = ?e and es = ?e and parse = ex_parse]
  have r1: "processOnce False ?e = (None, handleFailure (ex_queue ! 0) ?result
              (snd (ProcessMR (ex_queue ! 0) ?claimed)))"
    using inst [THEN conjunct2, THEN conjunct2, THEN conjunct2, THEN conjunct1, THEN mp, OF cycle]
    by simp
  have r2: "status_of (world (snd (processOnce False ?e))) (ID (ex_queue ! 0)) = Some ''open''"
    by (rule inst [THEN conjunct2, THEN conjunct2, THEN conjunct2, THEN conjunct2, THEN mp,
          OF store])
  from r1 r2 show ?thesis
    by (simp add: ex_defs)
qed

text \<open>
  C10 as the claim states it fails where the tracker refuses the reopening update: the
  item was claimed and handed to the failure handler, and it is still \<^verbatim>\<open>in_progress\<close>
  when the cycle returns.
\<close>

theorem processOnce_reopen_counterexample:
  "fst (processOnce False
          (ex_engineer ex_queue [None, None, Some (External ''bd update failed'')])) = None
   \<and> trace (snd (processOnce False
          (ex_engineer ex_queue [None, None, Some (External ''bd update failed'')]))) =
       [ReadyWithTypeCall ''merge-request'',
        UpdateCall ''gt-1'' \<lparr>opt_Status = Some ''in_progress''\<rparr>,
        ParseMRFieldsCall (ex_mr ''gt-1'' ''open''),
        UpdateCall ''gt-1'' \<lparr>opt_Status = Some ''open''\<rparr>]
   \<and> status_of (world (snd (processOnce False
          (ex_engineer ex_queue [None, None, Some (External ''bd update failed'')])))) ''gt-1''
       = Some ''in_progress''"
  by (simp add: processOnce_def processOnce_with_def ProcessMR_def handleFailure_def step_defs
      ex_defs Let_def)

end
